theory Spec2Isabelle
  imports Complex_Main
begin

section \<open>Data model\<close>

text \<open>
  The relational tables of the order, payment and delivery workflow, each row a record
  with the columns the handlers read or write. Primary keys are natural numbers, a
  \<open>DecimalField\<close> is an exact rational (the code only adds decimals and multiplies them by
  integers; a stored decimal has two decimal places, so quantising it on save changes
  nothing), a \<open>DateTimeField\<close> is a count of seconds, and every \<open>CharField\<close> with choices
  keeps the string the code stores in it. The columns \<open>created_at\<close> and \<open>updated_at\<close> that
  \<open>TimeStampedModel\<close> maintains by itself, the UUID columns, and the media columns are
  left out; the log tables (tracking, order items, earnings) are never read back by
  primary key and carry none.
\<close>

type_synonym pk = nat
type_synonym decimal = rat
type_synonym datetime = int

datatype user_role = customer_role | vendor_role | rider_role | admin_role

record user =
  user_pk :: pk
  role :: user_role
  full_name :: string

definition is_customer :: "user \<Rightarrow> bool" where
  "is_customer u = (role u = customer_role)"

definition is_vendor :: "user \<Rightarrow> bool" where
  "is_vendor u = (role u = vendor_role)"

definition is_rider :: "user \<Rightarrow> bool" where
  "is_rider u = (role u = rider_role)"

definition is_admin_user :: "user \<Rightarrow> bool" where
  "is_admin_user u = (role u = admin_role)"

record gas_product =
  product_pk :: pk
  name :: string
  cylinder_size :: string
  brand :: string
  base_price :: decimal
  product_refill_price :: decimal

record vendor_profile =
  vendor_pk :: pk
  vendor_user :: pk
  business_name :: string
  latitude :: decimal
  longitude :: decimal
  delivery_radius :: int
  minimum_order_amount :: decimal
  vendor_delivery_fee :: decimal

record vendor_inventory =
  inv_vendor :: pk
  inv_gas_product :: pk
  current_stock :: int
  reserved_stock :: int
  selling_price :: decimal
  refill_price :: "decimal option"

record rider_profile =
  rider_profile_pk :: pk
  rider_user :: pk

record order =
  order_pk :: pk
  order_number :: string
  customer :: pk
  vendor :: pk
  rider :: "pk option"
  order_type :: string
  status :: string
  delivery_address :: string
  delivery_instructions :: string
  delivery_latitude :: "decimal option"
  delivery_longitude :: "decimal option"
  requested_delivery_time :: "datetime option"
  estimated_delivery_time :: "datetime option"
  actual_delivery_time :: "datetime option"
  subtotal :: decimal
  delivery_fee :: decimal
  discount_amount :: decimal
  tax_amount :: decimal
  total_amount :: decimal
  payment_status :: string
  special_instructions :: string
  cancellation_reason :: string
  is_emergency :: bool

record order_item =
  item_order :: pk
  item_gas_product :: pk
  quantity :: int
  unit_price :: decimal
  total_price :: decimal
  product_name :: string
  item_cylinder_size :: string
  item_brand :: string
  is_refill :: bool
  customer_cylinder_serial :: string

record order_tracking =
  trk_order :: pk
  trk_status :: string
  trk_notes :: string
  updated_by :: "pk option"

text \<open>
  The body of a payment callback, \<open>Body.stkCallback\<close> of the provider: the handler reads the
  three keys with \<open>.get\<close>, so each of them may be absent (\<open>None\<close>).
\<close>

record mpesa_callback =
  CheckoutRequestID :: "string option"
  ResultCode :: "int option"
  ResultDesc :: "string option"

record payment =
  payment_pk :: pk
  pay_order :: pk
  amount :: decimal
  payment_method :: string
  pay_status :: string
  external_reference :: string
  phone_number :: string
  completed_at :: "datetime option"
  gateway_response :: "mpesa_callback option"
  failure_reason :: string

record delivery =
  delivery_pk :: pk
  dlv_order :: pk
  dlv_rider :: pk
  dlv_status :: string
  accepted_at :: "datetime option"
  picked_up_at :: "datetime option"
  delivered_at :: "datetime option"
  actual_distance :: "decimal option"
  base_fee :: decimal
  distance_fee :: decimal
  total_earnings :: decimal
  pickup_notes :: string
  delivery_notes :: string
  dlv_failure_reason :: string

record rider_earnings =
  earn_rider :: pk
  earn_delivery :: "pk option"
  earning_type :: string
  earn_amount :: decimal
  description :: string
  earning_date :: datetime

record db =
  vendors :: "vendor_profile list"
  inventory :: "vendor_inventory list"
  rider_profiles :: "rider_profile list"
  orders :: "order list"
  order_items :: "order_item list"
  tracking :: "order_tracking list"
  payments :: "payment list"
  deliveries :: "delivery list"
  earnings :: "rider_earnings list"

subsection \<open>Requests and responses\<close>

text \<open>
  The validated data of an order request, as the serializers hand it to the code: the
  vendor and each product are the model instances a \<open>PrimaryKeyRelatedField\<close> resolved,
  every key the code subscripts is present, and a key the code reads with \<open>.get\<close> holds
  the value \<open>.get\<close> yields (\<open>is_refill\<close> absent counts as \<open>False\<close> at both reads).
\<close>

record order_item_data =
  data_gas_product :: gas_product
  data_quantity :: int
  data_is_refill :: bool
  data_customer_cylinder_serial :: string

record order_create_data =
  data_vendor :: vendor_profile
  data_order_type :: string
  data_delivery_address :: string
  data_delivery_instructions :: string
  data_delivery_latitude :: "decimal option"
  data_delivery_longitude :: "decimal option"
  data_requested_delivery_time :: "datetime option"
  data_special_instructions :: string
  data_is_emergency :: bool
  data_items :: "order_item_data list"

record estimate_data =
  est_vendor :: pk
  est_items :: "order_item_data list"
  est_delivery_latitude :: decimal
  est_delivery_longitude :: decimal

record estimated_item =
  ei_product_name :: string
  ei_quantity :: int
  ei_unit_price :: decimal
  ei_total_price :: decimal
  ei_in_stock :: bool

record estimate =
  e_vendor_id :: pk
  e_vendor_name :: string
  e_delivery_radius :: int
  e_minimum_order_amount :: decimal
  e_items :: "estimated_item list"
  e_subtotal :: decimal
  e_delivery_fee :: decimal
  e_total_amount :: decimal
  e_distance_km :: rat
  e_can_deliver :: bool
  e_meets_minimum :: bool
  e_estimated_delivery_time :: int

datatype py_error = TypeError | DoesNotExist | AttributeError | InvalidOperation

text \<open>
  A response is its status code and its body. An exception that no handler catches
  reaches the framework, which answers 500: \<open>Uncaught\<close> keeps the exception.
\<close>

datatype payload =
    Message string
  | Error string
  | ValidationError string
  | OrderData order "order_item list"
  | EstimateData estimate
  | Uncaught py_error

datatype response = Response nat payload

fun status_code :: "response \<Rightarrow> nat" where
  "status_code (Response code _) = code"

subsection \<open>Row access\<close>

text \<open>
  \<open>Model.objects.get(id=k)\<close> is the first row with that key (\<open>None\<close> is \<open>DoesNotExist\<close>);
  \<open>instance.save()\<close> on a loaded row rewrites the rows with its key.
\<close>

definition get_order :: "db \<Rightarrow> pk \<Rightarrow> order option" where
  "get_order s k = find (\<lambda>r. order_pk r = k) (orders s)"

definition save_order :: "order \<Rightarrow> db \<Rightarrow> db" where
  "save_order ord s =
     s\<lparr>orders := map (\<lambda>r. if order_pk r = order_pk ord then ord else r) (orders s)\<rparr>"

definition save_payment :: "payment \<Rightarrow> db \<Rightarrow> db" where
  "save_payment p s =
     s\<lparr>payments := map (\<lambda>q. if payment_pk q = payment_pk p then p else q) (payments s)\<rparr>"

definition create_tracking :: "order_tracking \<Rightarrow> db \<Rightarrow> db" where
  "create_tracking row s = s\<lparr>tracking := tracking s @ [row]\<rparr>"

section \<open>Payment reconciliation: \<open>MpesaCallbackView.post\<close>\<close>


section \<open>Order creation: \<open>OrderCreateSerializer\<close>, \<open>CreateOrderView\<close>, \<open>OrderViewSet.perform_create\<close>\<close>

text \<open>\<open>validate_items\<close>: the empty list is refused, then the first item with quantity at most 0.\<close>

fun validate_quantities :: "order_item_data list \<Rightarrow> string option" where
  "validate_quantities [] = None"
| "validate_quantities (item # rest) =
     (if data_quantity item \<le> 0 then Some ''Quantity must be greater than 0''
      else validate_quantities rest)"

definition validate_items :: "order_item_data list \<Rightarrow> string + order_item_data list" where
  "validate_items its =
     (if its = [] then Inl ''At least one item is required''
      else case validate_quantities its of Some msg \<Rightarrow> Inl msg | None \<Rightarrow> Inr its)"

text \<open>
  The price of a line: the vendor's inventory row for the product when there is one
  (\<open>unique_together\<close> leaves at most one), the catalogue otherwise. An inventory row may have
  no refill price (\<open>null=True\<close>); the price is then \<open>None\<close> and the multiplication by the
  quantity raises \<open>TypeError\<close>.
\<close>

definition get_inventory :: "db \<Rightarrow> pk \<Rightarrow> pk \<Rightarrow> vendor_inventory option" where
  "get_inventory s v g = find (\<lambda>i. inv_vendor i = v \<and> inv_gas_product i = g) (inventory s)"

definition resolve_unit_price :: "db \<Rightarrow> pk \<Rightarrow> order_item_data \<Rightarrow> decimal option" where
  "resolve_unit_price s v item_data =
     (case get_inventory s v (product_pk (data_gas_product item_data)) of
        Some row \<Rightarrow>
          if data_is_refill item_data then refill_price row else Some (selling_price row)
      | None \<Rightarrow>
          Some (if data_is_refill item_data then product_refill_price (data_gas_product item_data)
                else base_price (data_gas_product item_data)))"

definition new_order_item :: "order \<Rightarrow> order_item_data \<Rightarrow> decimal \<Rightarrow> order_item" where
  "new_order_item ord item_data price =
     \<lparr>item_order = order_pk ord,
      item_gas_product = product_pk (data_gas_product item_data),
      quantity = data_quantity item_data,
      unit_price = price,
      total_price = of_int (data_quantity item_data) * price,
      product_name = name (data_gas_product item_data),
      item_cylinder_size = cylinder_size (data_gas_product item_data),
      item_brand = brand (data_gas_product item_data),
      is_refill = data_is_refill item_data,
      customer_cylinder_serial = data_customer_cylinder_serial item_data\<rparr>"

text \<open>
  Saving a \<open>DecimalField(max_digits=m, decimal_places=2)\<close> quantises the value to two places
  under a precision of \<open>m\<close> digits and raises \<open>InvalidOperation\<close> when it needs more: the
  value fits when its hundredths are below \<open>10 ^ m\<close>.
\<close>

definition fits :: "nat \<Rightarrow> decimal \<Rightarrow> bool" where
  "fits max_digits v = (\<bar>v\<bar> * 100 < 10 ^ max_digits)"

text \<open>
  The loop over \<open>items_data\<close>, with the running subtotal. Each row is written as soon as
  its price is known, \<open>unit_price\<close> and \<open>total_price\<close> being columns of 10 digits; an
  exception leaves the rows written so far.
\<close>

fun create_items :: "order \<Rightarrow> order_item_data list \<Rightarrow> decimal \<Rightarrow> db \<Rightarrow> (py_error + decimal) \<times> db" where
  "create_items ord [] sub s = (Inr sub, s)"
| "create_items ord (item_data # rest) sub s =
     (case resolve_unit_price s (vendor ord) item_data of
        None \<Rightarrow> (Inl TypeError, s)
      | Some price \<Rightarrow>
          if fits 10 price \<and> fits 10 (of_int (data_quantity item_data) * price)
          then create_items ord rest (sub + of_int (data_quantity item_data) * price)
                 (s\<lparr>order_items := order_items s @ [new_order_item ord item_data price]\<rparr>)
          else (Inl InvalidOperation, s))"

definition fresh_pk :: "pk list \<Rightarrow> pk" where
  "fresh_pk ks = Suc (fold max ks 0)"

text \<open>
  \<open>Order.objects.create(**validated_data)\<close>: the row gets the next key and the defaults of
  the model. \<open>number\<close> is the order number \<open>Order.save\<close> draws for a row without one.
  The final \<open>order.save()\<close> writes \<open>subtotal\<close> and \<open>total_amount\<close> (10 digits) and
  \<open>delivery_fee\<close> (8 digits); when one of them does not fit it raises and writes nothing,
  the order row and its items staying as they were created.
\<close>

definition new_order :: "user \<Rightarrow> string \<Rightarrow> order_create_data \<Rightarrow> db \<Rightarrow> order" where
  "new_order u number d s =
     \<lparr>order_pk = fresh_pk (map order_pk (orders s)),
      order_number = number,
      customer = user_pk u,
      vendor = vendor_pk (data_vendor d),
      rider = None,
      order_type = data_order_type d,
      status = ''pending'',
      delivery_address = data_delivery_address d,
      delivery_instructions = data_delivery_instructions d,
      delivery_latitude = data_delivery_latitude d,
      delivery_longitude = data_delivery_longitude d,
      requested_delivery_time = data_requested_delivery_time d,
      estimated_delivery_time = None,
      actual_delivery_time = None,
      subtotal = 0, delivery_fee = 0, discount_amount = 0, tax_amount = 0, total_amount = 0,
      payment_status = ''pending'',
      special_instructions = data_special_instructions d,
      cancellation_reason = [],
      is_emergency = data_is_emergency d\<rparr>"

definition OrderCreateSerializer_create ::
    "user \<Rightarrow> string \<Rightarrow> order_create_data \<Rightarrow> db \<Rightarrow> (py_error + order) \<times> db" where
  "OrderCreateSerializer_create u number d s =
     (let ord = new_order u number d s;
          s0 = s\<lparr>orders := orders s @ [ord]\<rparr>
      in case create_items ord (data_items d) 0 s0 of
           (Inl e, s1) \<Rightarrow> (Inl e, s1)
         | (Inr sub, s1) \<Rightarrow>
             let ord1 = ord\<lparr>subtotal := sub,
                           delivery_fee := vendor_delivery_fee (data_vendor d),
                           total_amount := sub + vendor_delivery_fee (data_vendor d)\<rparr>
             in if fits 10 (subtotal ord1) \<and> fits 8 (delivery_fee ord1) \<and>
                   fits 10 (total_amount ord1)
                then
                  let s2 = save_order ord1 s1;
                      s3 = create_tracking
                             \<lparr>trk_order = order_pk ord1, trk_status = ''pending'',
                              trk_notes = ''Order created successfully'',
                              updated_by = Some (customer ord1)\<rparr> s2
                  in (Inr ord1, s3)
                else (Inl InvalidOperation, s1))"

definition CreateOrderView_post ::
    "user \<Rightarrow> string \<Rightarrow> order_create_data \<Rightarrow> db \<Rightarrow> response \<times> db" where
  "CreateOrderView_post u number d s =
     (if \<not> is_customer u then (Response 403 (Error ''Only customers can create orders''), s)
      else case validate_items (data_items d) of
             Inl msg \<Rightarrow> (Response 400 (ValidationError msg), s)
           | Inr _ \<Rightarrow>
               (case OrderCreateSerializer_create u number d s of
                  (Inl e, s1) \<Rightarrow> (Response 500 (Uncaught e), s1)
                | (Inr ord, s1) \<Rightarrow>
                    (Response 201
                       (OrderData ord (filter (\<lambda>i. item_order i = order_pk ord) (order_items s1))),
                     s1)))"

text \<open>
  The \<open>create\<close> action of \<open>OrderViewSet\<close> is the framework's: validate (400 on failure),
  call \<open>perform_create\<close>, answer 201. \<open>perform_create\<close> is the repository's. For a caller who
  is not a customer it evaluates \<open>permissions.PermissionDenied\<close>; the module
  \<open>rest_framework.permissions\<close> has no such name, so what is raised is \<open>AttributeError\<close>, which
  nothing catches.
\<close>

definition OrderViewSet_perform_create ::
    "user \<Rightarrow> string \<Rightarrow> order_create_data \<Rightarrow> db \<Rightarrow> (py_error + order) \<times> db" where
  "OrderViewSet_perform_create u number d s =
     (if \<not> is_customer u then (Inl AttributeError, s)
      else case OrderCreateSerializer_create u number d s of
             (Inl e, s1) \<Rightarrow> (Inl e, s1)
           | (Inr ord, s1) \<Rightarrow>
               (Inr ord,
                create_tracking
                  \<lparr>trk_order = order_pk ord, trk_status = ''pending'',
                   trk_notes = ''Order created successfully'',
                   updated_by = Some (user_pk u)\<rparr> s1))"

definition OrderViewSet_create ::
    "user \<Rightarrow> string \<Rightarrow> order_create_data \<Rightarrow> db \<Rightarrow> response \<times> db" where
  "OrderViewSet_create u number d s =
     (case validate_items (data_items d) of
        Inl msg \<Rightarrow> (Response 400 (ValidationError msg), s)
      | Inr _ \<Rightarrow>
          (case OrderViewSet_perform_create u number d s of
             (Inl e, s1) \<Rightarrow> (Response 500 (Uncaught e), s1)
           | (Inr ord, s1) \<Rightarrow> (Response 201 (OrderData ord []), s1)))"

section \<open>Order status actions: \<open>OrderViewSet\<close>\<close>

definition get_vendor :: "db \<Rightarrow> pk \<Rightarrow> vendor_profile option" where
  "get_vendor s k = find (\<lambda>v. vendor_pk v = k) (vendors s)"

text \<open>\<open>vendor__user=user\<close>: the join drops an order whose vendor row is missing.\<close>

definition vendor_user_is :: "db \<Rightarrow> pk \<Rightarrow> order \<Rightarrow> bool" where
  "vendor_user_is s k ord =
     (case get_vendor s (vendor ord) of None \<Rightarrow> False | Some v \<Rightarrow> vendor_user v = k)"

definition get_queryset :: "user \<Rightarrow> db \<Rightarrow> order list" where
  "get_queryset u s =
     (if is_admin_user u then orders s
      else if is_customer u then filter (\<lambda>r. customer r = user_pk u) (orders s)
      else if is_vendor u then filter (vendor_user_is s (user_pk u)) (orders s)
      else if is_rider u then filter (\<lambda>r. rider r = Some (user_pk u)) (orders s)
      else [])"

definition get_object :: "user \<Rightarrow> pk \<Rightarrow> db \<Rightarrow> order option" where
  "get_object u k s = find (\<lambda>r. order_pk r = k) (get_queryset u s)"

text \<open>
  \<open>not request.user.is_vendor or order.vendor.user != request.user\<close>, with Python's
  short circuit: the vendor row is read only for a vendor, and \<open>None\<close> is the
  \<open>DoesNotExist\<close> of a missing row.
\<close>

definition not_order_vendor :: "db \<Rightarrow> user \<Rightarrow> order \<Rightarrow> bool option" where
  "not_order_vendor s u ord =
     (if \<not> is_vendor u then Some True
      else case get_vendor s (vendor ord) of
             None \<Rightarrow> None
           | Some v \<Rightarrow> Some (vendor_user v \<noteq> user_pk u))"

fun digits :: "nat \<Rightarrow> string" where
  "digits n = (if n < 10 then [''0123456789'' ! n]
               else digits (n div 10) @ [''0123456789'' ! (n mod 10)])"

definition str_int :: "int \<Rightarrow> string" where
  "str_int i = (if i < 0 then CHR ''-'' # digits (nat (- i)) else digits (nat i))"

text \<open>\<open>estimated_time\<close> is \<open>request.data.get('estimated_time', 30)\<close>, in minutes.\<close>

definition OrderViewSet_confirm ::
    "datetime \<Rightarrow> user \<Rightarrow> pk \<Rightarrow> int option \<Rightarrow> db \<Rightarrow> response \<times> db" where
  "OrderViewSet_confirm now u k estimated_time_opt s =
     (case get_object u k s of
        None \<Rightarrow> (Response 404 (Error ''Not found.''), s)
      | Some ord \<Rightarrow>
          (case not_order_vendor s u ord of
             None \<Rightarrow> (Response 500 (Uncaught DoesNotExist), s)
           | Some True \<Rightarrow> (Response 403 (Error ''Permission denied''), s)
           | Some False \<Rightarrow>
               if status ord \<noteq> ''pending''
               then (Response 400 (Error ''Order cannot be confirmed''), s)
               else
                 let estimated_time = (case estimated_time_opt of None \<Rightarrow> 30 | Some m \<Rightarrow> m);
                     ord1 = ord\<lparr>status := ''confirmed'',
                                estimated_delivery_time := Some (now + 60 * estimated_time)\<rparr>;
                     s1 = save_order ord1 s;
                     s2 = create_tracking
                            \<lparr>trk_order = order_pk ord1, trk_status = ''confirmed'',
                             trk_notes = ''Order confirmed. Estimated delivery time: '' @
                                         str_int estimated_time @ '' minutes'',
                             updated_by = Some (user_pk u)\<rparr> s1
                 in (Response 200 (Message ''Order confirmed successfully''), s2)))"

definition OrderViewSet_prepare :: "user \<Rightarrow> pk \<Rightarrow> db \<Rightarrow> response \<times> db" where
  "OrderViewSet_prepare u k s =
     (case get_object u k s of
        None \<Rightarrow> (Response 404 (Error ''Not found.''), s)
      | Some ord \<Rightarrow>
          (case not_order_vendor s u ord of
             None \<Rightarrow> (Response 500 (Uncaught DoesNotExist), s)
           | Some True \<Rightarrow> (Response 403 (Error ''Permission denied''), s)
           | Some False \<Rightarrow>
               let ord1 = ord\<lparr>status := ''preparing''\<rparr>;
                   s1 = save_order ord1 s;
                   s2 = create_tracking
                          \<lparr>trk_order = order_pk ord1, trk_status = ''preparing'',
                           trk_notes = ''Order is being prepared'',
                           updated_by = Some (user_pk u)\<rparr> s1
               in (Response 200 (Message ''Order marked as preparing''), s2)))"

definition OrderViewSet_ready_for_pickup :: "user \<Rightarrow> pk \<Rightarrow> db \<Rightarrow> response \<times> db" where
  "OrderViewSet_ready_for_pickup u k s =
     (case get_object u k s of
        None \<Rightarrow> (Response 404 (Error ''Not found.''), s)
      | Some ord \<Rightarrow>
          (case not_order_vendor s u ord of
             None \<Rightarrow> (Response 500 (Uncaught DoesNotExist), s)
           | Some True \<Rightarrow> (Response 403 (Error ''Permission denied''), s)
           | Some False \<Rightarrow>
               let ord1 = ord\<lparr>status := ''ready_for_pickup''\<rparr>;
                   s1 = save_order ord1 s;
                   s2 = create_tracking
                          \<lparr>trk_order = order_pk ord1, trk_status = ''ready_for_pickup'',
                           trk_notes = ''Order is ready for pickup'',
                           updated_by = Some (user_pk u)\<rparr> s1
               in (Response 200 (Message ''Order marked as ready for pickup''), s2)))"

section \<open>Cancellation: \<open>OrderViewSet.cancel\<close> and \<open>CancelOrderView.post\<close>\<close>





section \<open>Order estimate: \<open>OrderEstimateView.post\<close>\<close>

definition available_stock :: "vendor_inventory \<Rightarrow> int" where
  "available_stock row = max 0 (current_stock row - reserved_stock row)"

text \<open>One pass of the loop: the line of the estimate, or \<open>None\<close> where the price is missing.\<close>

definition estimate_item :: "db \<Rightarrow> pk \<Rightarrow> order_item_data \<Rightarrow> estimated_item option" where
  "estimate_item s v item_data =
     (case resolve_unit_price s v item_data of
        None \<Rightarrow> None
      | Some price \<Rightarrow>
          Some \<lparr>ei_product_name = name (data_gas_product item_data),
                ei_quantity = data_quantity item_data,
                ei_unit_price = price,
                ei_total_price = of_int (data_quantity item_data) * price,
                ei_in_stock =
                  (case get_inventory s v (product_pk (data_gas_product item_data)) of
                     None \<Rightarrow> False
                   | Some row \<Rightarrow> available_stock row \<ge> data_quantity item_data)\<rparr>)"

fun estimate_items ::
    "db \<Rightarrow> pk \<Rightarrow> order_item_data list \<Rightarrow> decimal \<Rightarrow> estimated_item list \<Rightarrow>
     py_error + decimal \<times> estimated_item list" where
  "estimate_items s v [] sub acc = Inr (sub, acc)"
| "estimate_items s v (item_data # rest) sub acc =
     (case estimate_item s v item_data of
        None \<Rightarrow> Inl TypeError
      | Some line \<Rightarrow> estimate_items s v rest (sub + ei_total_price line) (acc @ [line]))"

text \<open>
  The view carries \<open>permission_classes = [IsAuthenticated]\<close>: a request without a user is
  answered by the framework before the handler runs (401 under token authentication).
  The geodesic distance and Python's \<open>round\<close> are floating-point library functions and
  are parameters here; a finite float is a rational number.
\<close>

definition not_authenticated :: response where
  "not_authenticated = Response 401 (Error ''Authentication credentials were not provided.'')"

definition OrderEstimateView_post ::
    "(decimal \<times> decimal \<Rightarrow> decimal \<times> decimal \<Rightarrow> rat) \<Rightarrow> (rat \<Rightarrow> rat) \<Rightarrow>
     user option \<Rightarrow> estimate_data \<Rightarrow> db \<Rightarrow> response \<times> db" where
  "OrderEstimateView_post geodesic_km round2 request_user d s =
     (case request_user of
        None \<Rightarrow> (not_authenticated, s)
      | Some u \<Rightarrow>
          (case get_vendor s (est_vendor d) of
             None \<Rightarrow> (Response 400 (ValidationError ''Vendor not found''), s)
           | Some vnd \<Rightarrow>
               (case estimate_items s (vendor_pk vnd) (est_items d) 0 [] of
                  Inl e \<Rightarrow> (Response 500 (Uncaught e), s)
                | Inr (sub, estimated_items) \<Rightarrow>
                    let located = (latitude vnd \<noteq> 0 \<and> longitude vnd \<noteq> 0);
                        distance =
                          (if located
                           then geodesic_km (latitude vnd, longitude vnd)
                                  (est_delivery_latitude d, est_delivery_longitude d)
                           else 0);
                        can_deliver =
                          (if located then distance \<le> of_int (delivery_radius vnd) else True);
                        fee = vendor_delivery_fee vnd
                    in (Response 200
                          (EstimateData
                             \<lparr>e_vendor_id = vendor_pk vnd,
                              e_vendor_name = business_name vnd,
                              e_delivery_radius = delivery_radius vnd,
                              e_minimum_order_amount = minimum_order_amount vnd,
                              e_items = estimated_items,
                              e_subtotal = sub,
                              e_delivery_fee = fee,
                              e_total_amount = sub + fee,
                              e_distance_km = round2 distance,
                              e_can_deliver = can_deliver,
                              e_meets_minimum = (sub \<ge> minimum_order_amount vnd),
                              e_estimated_delivery_time = 60\<rparr>), s))))"

section \<open>Delivery completion: \<open>DeliveryViewSet.deliver\<close> and \<open>UpdateDeliveryStatusView.post\<close>\<close>

definition get_rider_profile :: "db \<Rightarrow> pk \<Rightarrow> rider_profile option" where
  "get_rider_profile s k = find (\<lambda>p. rider_profile_pk p = k) (rider_profiles s)"

definition save_delivery :: "delivery \<Rightarrow> db \<Rightarrow> db" where
  "save_delivery d s =
     s\<lparr>deliveries := map (\<lambda>r. if delivery_pk r = delivery_pk d then d else r) (deliveries s)\<rparr>"

text \<open>\<open>rider__user=user\<close>: the delivery's rider profile belongs to the user.\<close>

definition rider_user_is :: "db \<Rightarrow> pk \<Rightarrow> delivery \<Rightarrow> bool" where
  "rider_user_is s k d =
     (case get_rider_profile s (dlv_rider d) of None \<Rightarrow> False | Some p \<Rightarrow> rider_user p = k)"

definition delivery_get_queryset :: "user \<Rightarrow> db \<Rightarrow> delivery list" where
  "delivery_get_queryset u s =
     (if is_admin_user u then deliveries s
      else if is_rider u then
        (case find (\<lambda>p. rider_user p = user_pk u) (rider_profiles s) of
           None \<Rightarrow> []
         | Some p \<Rightarrow> filter (\<lambda>d. dlv_rider d = rider_profile_pk p) (deliveries s))
      else if is_vendor u then
        filter (\<lambda>d. case get_order s (dlv_order d) of
                      None \<Rightarrow> False | Some ord \<Rightarrow> vendor_user_is s (user_pk u) ord)
          (deliveries s)
      else if is_customer u then
        filter (\<lambda>d. case get_order s (dlv_order d) of
                      None \<Rightarrow> False | Some ord \<Rightarrow> customer ord = user_pk u)
          (deliveries s)
      else [])"

definition not_delivery_rider :: "db \<Rightarrow> user \<Rightarrow> delivery \<Rightarrow> bool option" where
  "not_delivery_rider s u d =
     (if \<not> is_rider u then Some True
      else case get_rider_profile s (dlv_rider d) of
             None \<Rightarrow> None
           | Some p \<Rightarrow> Some (rider_user p \<noteq> user_pk u))"

text \<open>
  \<open>deliver\<close> saves the delivery, then the order, then the fees on the delivery, then
  writes the earnings row; \<open>notes\<close> is \<open>request.data.get('notes', '')\<close>. The earning date is
  the day of \<open>now\<close>.
\<close>

definition DeliveryViewSet_deliver ::
    "datetime \<Rightarrow> user \<Rightarrow> pk \<Rightarrow> string option \<Rightarrow> db \<Rightarrow> response \<times> db" where
  "DeliveryViewSet_deliver now u k notes_opt s =
     (case find (\<lambda>r. delivery_pk r = k) (delivery_get_queryset u s) of
        None \<Rightarrow> (Response 404 (Error ''Not found.''), s)
      | Some dlv \<Rightarrow>
          (case not_delivery_rider s u dlv of
             None \<Rightarrow> (Response 500 (Uncaught DoesNotExist), s)
           | Some True \<Rightarrow> (Response 403 (Error ''Permission denied''), s)
           | Some False \<Rightarrow>
               let dlv1 = dlv\<lparr>dlv_status := ''delivered'', delivered_at := Some now,
                              delivery_notes := (case notes_opt of None \<Rightarrow> [] | Some n \<Rightarrow> n)\<rparr>;
                   s1 = save_delivery dlv1 s
               in case get_order s1 (dlv_order dlv1) of
                    None \<Rightarrow> (Response 500 (Uncaught DoesNotExist), s1)
                  | Some ord \<Rightarrow>
                      let ord1 = ord\<lparr>status := ''delivered'', actual_delivery_time := Some now\<rparr>;
                          s2 = save_order ord1 s1;
                          base = 100;
                          dist = (case actual_distance dlv1 of
                                    None \<Rightarrow> 0
                                  | Some km \<Rightarrow> if km \<noteq> 0 then km * 10 else 0);
                          total = base + dist;
                          dlv2 = dlv1\<lparr>base_fee := base, distance_fee := dist,
                                       total_earnings := total\<rparr>;
                          s3 = save_delivery dlv2 s2;
                          s4 = s3\<lparr>earnings := earnings s3 @
                                 [\<lparr>earn_rider = dlv_rider dlv2,
                                   earn_delivery = Some (delivery_pk dlv2),
                                   earning_type = ''delivery'',
                                   earn_amount = total,
                                   description = ''Delivery for order '' @ order_number ord1,
                                   earning_date = now div 86400\<rparr>]\<rparr>
                      in (Response 200 (Message ''Order delivered successfully''), s4)))"

text \<open>
  \<open>UpdateDeliveryStatusView.post\<close>: \<open>delivery_id\<close> and \<open>status\<close> are read with \<open>.get\<close>; a
  missing, zero or empty one is refused. The status is stored as sent.
\<close>

definition UpdateDeliveryStatusView_post ::
    "datetime \<Rightarrow> user \<Rightarrow> pk option \<Rightarrow> string option \<Rightarrow> string option \<Rightarrow> db \<Rightarrow> response \<times> db" where
  "UpdateDeliveryStatusView_post now u delivery_id_opt status_opt notes_opt s =
     (if \<not> is_rider u
      then (Response 403 (Error ''Only riders can update delivery status''), s)
      else
        let notes = (case notes_opt of None \<Rightarrow> [] | Some n \<Rightarrow> n) in
        case (delivery_id_opt, status_opt) of
          (Some delivery_id, Some new_status) \<Rightarrow>
            if delivery_id = 0 \<or> new_status = []
            then (Response 400 (Error ''Delivery ID and status required''), s)
            else
              (case find (\<lambda>r. delivery_pk r = delivery_id \<and> rider_user_is s (user_pk u) r)
                      (deliveries s) of
                 None \<Rightarrow> (Response 404 (Error ''Delivery not found''), s)
               | Some dlv \<Rightarrow>
                   let dlv1 = dlv\<lparr>dlv_status := new_status\<rparr> in
                   if new_status = ''picking_up'' then
                     (Response 200 (Message (''Delivery status updated to '' @ new_status)),
                      save_delivery (dlv1\<lparr>pickup_notes := notes\<rparr>) s)
                   else if new_status = ''delivered'' then
                     (case get_order s (dlv_order dlv1) of
                        None \<Rightarrow> (Response 500 (Uncaught DoesNotExist), s)
                      | Some ord \<Rightarrow>
                          let dlv2 = dlv1\<lparr>delivered_at := Some now, delivery_notes := notes\<rparr>;
                              ord1 = ord\<lparr>status := ''delivered'',
                                         actual_delivery_time := Some now\<rparr>;
                              s1 = save_order ord1 s
                          in (Response 200 (Message (''Delivery status updated to '' @ new_status)),
                              save_delivery dlv2 s1))
                   else
                     (Response 200 (Message (''Delivery status updated to '' @ new_status)),
                      save_delivery dlv1 s))
        | _ \<Rightarrow> (Response 400 (Error ''Delivery ID and status required''), s))"

section \<open>A sample database\<close>

text \<open>
  The scenario of the specification: a customer (user 7) orders 13 kg cylinders from a
  vendor (profile 3, owned by user 20) whose inventory price is 2500 and whose delivery
  fee is 300; user 30 rides (rider profile 4). Order 1 is the order of that scenario with
  a payment in flight; order 2 has been delivered and paid.
\<close>

definition customer7 :: user where
  "customer7 = \<lparr>user_pk = 7, role = customer_role, full_name = ''Amina Otieno''\<rparr>"

definition vendor20 :: user where
  "vendor20 = \<lparr>user_pk = 20, role = vendor_role, full_name = ''Gas Point''\<rparr>"

definition rider30 :: user where
  "rider30 = \<lparr>user_pk = 30, role = rider_role, full_name = ''Brian Kiptoo''\<rparr>"

definition cylinder13 :: gas_product where
  "cylinder13 = \<lparr>product_pk = 5, name = ''13kg LPG'', cylinder_size = ''13kg'',
                 brand = ''K-Gas'', base_price = 2600, product_refill_price = 1300\<rparr>"

definition vendor3 :: vendor_profile where
  "vendor3 = \<lparr>vendor_pk = 3, vendor_user = 20, business_name = ''Gas Point'',
              latitude = 0, longitude = 0, delivery_radius = 5,
              minimum_order_amount = 0, vendor_delivery_fee = 300\<rparr>"

definition order1 :: order where
  "order1 = \<lparr>order_pk = 1, order_number = ''KAA202401010001'', customer = 7, vendor = 3,
             rider = None, order_type = ''delivery'', status = ''pending'',
             delivery_address = ''Moi Avenue'', delivery_instructions = [],
             delivery_latitude = None, delivery_longitude = None,
             requested_delivery_time = None, estimated_delivery_time = None,
             actual_delivery_time = None, subtotal = 5000, delivery_fee = 300,
             discount_amount = 0, tax_amount = 0, total_amount = 5300,
             payment_status = ''pending'', special_instructions = [],
             cancellation_reason = [], is_emergency = False\<rparr>"

definition order2 :: order where
  "order2 = order1\<lparr>order_pk := 2, order_number := ''KAA202401010002'', rider := Some 30,
                   status := ''delivered'', payment_status := ''paid''\<rparr>"

definition payment1 :: payment where
  "payment1 = \<lparr>payment_pk = 1, pay_order = 1, amount = 5300, payment_method = ''mpesa'',
               pay_status = ''processing'', external_reference = ''ws_CO_1'',
               phone_number = ''+254700000000'', completed_at = None,
               gateway_response = None, failure_reason = []\<rparr>"

definition delivery1 :: delivery where
  "delivery1 = \<lparr>delivery_pk = 1, dlv_order = 1, dlv_rider = 4, dlv_status = ''in_transit'',
                accepted_at = Some 100, picked_up_at = Some 200, delivered_at = None,
                actual_distance = Some (5 / 2), base_fee = 0, distance_fee = 0,
                total_earnings = 0, pickup_notes = [], delivery_notes = [],
                dlv_failure_reason = []\<rparr>"

definition db0 :: db where
  "db0 = \<lparr>vendors = [vendor3],
          inventory = [\<lparr>inv_vendor = 3, inv_gas_product = 5, current_stock = 10,
                        reserved_stock = 0, selling_price = 2500, refill_price = Some 1200\<rparr>],
          rider_profiles = [\<lparr>rider_profile_pk = 4, rider_user = 30\<rparr>],
          orders = [order1, order2],
          order_items = [],
          tracking = [],
          payments = [payment1],
          deliveries = [delivery1],
          earnings = []\<rparr>"




definition two_cylinders :: order_create_data where
  "two_cylinders = \<lparr>data_vendor = vendor3, data_order_type = ''delivery'',
                    data_delivery_address = ''Moi Avenue'', data_delivery_instructions = [],
                    data_delivery_latitude = None, data_delivery_longitude = None,
                    data_requested_delivery_time = None, data_special_instructions = [],
                    data_is_emergency = False,
                    data_items = [\<lparr>data_gas_product = cylinder13, data_quantity = 2,
                                   data_is_refill = False,
                                   data_customer_cylinder_serial = []\<rparr>]\<rparr>"

definition estimate_two :: estimate_data where
  "estimate_two = \<lparr>est_vendor = 3, est_items = data_items two_cylinders,
                   est_delivery_latitude = -1, est_delivery_longitude = 36\<rparr>"

section \<open>Lemmas on row access\<close>

lemma find_save_order:
  "find (\<lambda>r. order_pk r = k) os = Some ord \<Longrightarrow> order_pk ord1 = k \<Longrightarrow>
   find (\<lambda>r. order_pk r = k) (map (\<lambda>r. if order_pk r = k then ord1 else r) os) = Some ord1"
  by (induction os) (auto split: if_splits)




lemma get_order_save_order:
  "get_order s k = Some ord \<Longrightarrow> order_pk ord1 = k \<Longrightarrow>
   get_order (save_order ord1 s) k = Some ord1"
  by (simp add: get_order_def save_order_def find_save_order)

lemma save_order_sel:
  "orders (save_order x s) = map (\<lambda>r. if order_pk r = order_pk x then x else r) (orders s)"
  "payments (save_order x s) = payments s"
  "tracking (save_order x s) = tracking s"
  by (simp_all add: save_order_def)

lemma save_payment_sel:
  "payments (save_payment p s) = map (\<lambda>q. if payment_pk q = payment_pk p then p else q) (payments s)"
  "orders (save_payment p s) = orders s"
  "tracking (save_payment p s) = tracking s"
  by (simp_all add: save_payment_def)

lemma create_tracking_sel:
  "tracking (create_tracking row s) = tracking s @ [row]"
  "orders (create_tracking row s) = orders s"
  "payments (create_tracking row s) = payments s"
  by (simp_all add: create_tracking_def)

lemma get_order_frame:
  "get_order (save_payment p s) k = get_order s k"
  "get_order (create_tracking row s) k = get_order s k"
  by (simp_all add: get_order_def save_payment_sel create_tracking_sel)

section \<open>The payment callback\<close>

















section \<open>Order creation\<close>

lemma fold_max_ge: "(a::nat) \<le> fold max ks a \<and> (\<forall>k \<in> set ks. k \<le> fold max ks a)"
proof (induction ks arbitrary: a)
  case Nil
  then show ?case by simp
next
  case (Cons k ks)
  from Cons.IH[of "max k a"] show ?case by auto
qed

lemma fresh_pk_notin: "fresh_pk ks \<notin> set ks"
proof
  assume "fresh_pk ks \<in> set ks"
  with fold_max_ge[of 0 ks] have "fresh_pk ks \<le> fold max ks 0" by blast
  then show False by (simp add: fresh_pk_def)
qed

lemma resolve_unit_price_frame:
  "inventory s' = inventory s \<Longrightarrow> resolve_unit_price s' v item = resolve_unit_price s v item"
  by (simp add: resolve_unit_price_def get_inventory_def)

lemma create_items_ok:
  "create_items ord its sub s = (Inr sub', s') \<Longrightarrow>
   \<exists>rows. s' = s\<lparr>order_items := order_items s @ rows\<rparr> \<and>
     sub' = sub + sum_list (map (\<lambda>i. of_int (quantity i) * unit_price i) rows) \<and>
     list_all2 (\<lambda>item row. row = new_order_item ord item (unit_price row) \<and>
                  resolve_unit_price s (vendor ord) item = Some (unit_price row)) its rows"
proof (induction its arbitrary: sub s)
  case Nil
  then show ?case by simp
next
  case (Cons item rest)
  from Cons.prems obtain price where
    p: "resolve_unit_price s (vendor ord) item = Some price"
    and rec: "create_items ord rest (sub + of_int (data_quantity item) * price)
          (s\<lparr>order_items := order_items s @ [new_order_item ord item price]\<rparr>) = (Inr sub', s')"
    by (auto split: option.splits if_splits)
  let ?s1 = "s\<lparr>order_items := order_items s @ [new_order_item ord item price]\<rparr>"
  from Cons.IH[OF rec] obtain rows where
    s': "s' = ?s1\<lparr>order_items := order_items ?s1 @ rows\<rparr>"
    and sub': "sub' = sub + of_int (data_quantity item) * price +
                 sum_list (map (\<lambda>i. of_int (quantity i) * unit_price i) rows)"
    and all: "list_all2 (\<lambda>item row. row = new_order_item ord item (unit_price row) \<and>
                  resolve_unit_price ?s1 (vendor ord) item = Some (unit_price row)) rest rows"
    by blast
  have fr: "\<And>it. resolve_unit_price ?s1 (vendor ord) it = resolve_unit_price s (vendor ord) it"
    by (rule resolve_unit_price_frame) simp
  have row: "unit_price (new_order_item ord item price) = price"
    "quantity (new_order_item ord item price) = data_quantity item"
    by (simp_all add: new_order_item_def)
  show ?case
  proof (intro exI[of _ "new_order_item ord item price # rows"] conjI)
    show "s' = s\<lparr>order_items := order_items s @ new_order_item ord item price # rows\<rparr>"
      using s' by simp
    show "sub' = sub + sum_list (map (\<lambda>i. of_int (quantity i) * unit_price i)
                   (new_order_item ord item price # rows))"
      using sub' row by simp
    show "list_all2 (\<lambda>item row. row = new_order_item ord item (unit_price row) \<and>
                  resolve_unit_price s (vendor ord) item = Some (unit_price row))
            (item # rest) (new_order_item ord item price # rows)"
      using all p row fr by simp
  qed
qed

lemma find_appended_row:
  "k \<notin> order_pk ` set os \<Longrightarrow> order_pk a = k \<Longrightarrow> order_pk b = k \<Longrightarrow>
   find (\<lambda>r. order_pk r = k) (map (\<lambda>r. if order_pk r = order_pk b then b else r) (os @ [a])) = Some b"
  by (induction os) auto

lemma create_serializer_ok:
  assumes "OrderCreateSerializer_create u number d s = (Inr ord, s')"
  shows "\<exists>rows sub.
     create_items (new_order u number d s) (data_items d) 0 (s\<lparr>orders := orders s @ [new_order u number d s]\<rparr>) =
       (Inr sub, s\<lparr>orders := orders s @ [new_order u number d s], order_items := order_items s @ rows\<rparr>) \<and>
     ord = (new_order u number d s)\<lparr>subtotal := sub,
              delivery_fee := vendor_delivery_fee (data_vendor d),
              total_amount := sub + vendor_delivery_fee (data_vendor d)\<rparr> \<and>
     s' = s\<lparr>orders := map (\<lambda>r. if order_pk r = order_pk ord then ord else r)
                         (orders s @ [new_order u number d s]),
            order_items := order_items s @ rows,
            tracking := tracking s @ [\<lparr>trk_order = order_pk ord, trk_status = ''pending'',
                         trk_notes = ''Order created successfully'',
                         updated_by = Some (customer ord)\<rparr>]\<rparr>"
proof -
  let ?o = "new_order u number d s"
  let ?s0 = "s\<lparr>orders := orders s @ [?o]\<rparr>"
  obtain res s1 where ci: "create_items ?o (data_items d) 0 ?s0 = (res, s1)"
    by (cases "create_items ?o (data_items d) 0 ?s0") auto
  with assms obtain sub where res: "res = Inr sub"
    by (cases res) (auto simp: OrderCreateSerializer_create_def Let_def split: if_splits)
  from create_items_ok[OF ci[unfolded res]] obtain rows where
    s1: "s1 = ?s0\<lparr>order_items := order_items ?s0 @ rows\<rparr>" by blast
  from assms ci res have ord: "ord = ?o\<lparr>subtotal := sub,
              delivery_fee := vendor_delivery_fee (data_vendor d),
              total_amount := sub + vendor_delivery_fee (data_vendor d)\<rparr>"
    and s': "s' = create_tracking \<lparr>trk_order = order_pk ord, trk_status = ''pending'',
                         trk_notes = ''Order created successfully'',
                         updated_by = Some (customer ord)\<rparr> (save_order ord s1)"
    by (auto simp: OrderCreateSerializer_create_def Let_def split: if_splits)
  show ?thesis
  proof (intro exI[of _ rows] exI[of _ sub] conjI)
    show "create_items ?o (data_items d) 0 ?s0 =
       (Inr sub, s\<lparr>orders := orders s @ [?o], order_items := order_items s @ rows\<rparr>)"
      using ci res s1 by simp
    show "ord = ?o\<lparr>subtotal := sub,
              delivery_fee := vendor_delivery_fee (data_vendor d),
              total_amount := sub + vendor_delivery_fee (data_vendor d)\<rparr>" by (rule ord)
    show "s' = s\<lparr>orders := map (\<lambda>r. if order_pk r = order_pk ord then ord else r)
                         (orders s @ [?o]),
            order_items := order_items s @ rows,
            tracking := tracking s @ [\<lparr>trk_order = order_pk ord, trk_status = ''pending'',
                         trk_notes = ''Order created successfully'',
                         updated_by = Some (customer ord)\<rparr>]\<rparr>"
      unfolding s' s1 by (simp add: create_tracking_def save_order_def)
  qed
qed

lemma filter_new_rows:
  assumes "\<forall>i \<in> set old. item_order i \<noteq> k" "\<forall>i \<in> set rows. item_order i = k"
  shows "filter (\<lambda>i. item_order i = k) (old @ rows) = rows"
  using assms by (simp add: filter_empty_conv filter_id_conv)

text \<open>
  Claim C3. When \<open>OrderCreateSerializer.create\<close> returns an order (every existing order item
  pointing to an existing order, as the foreign key demands), that order is the row
  persisted under its key, and its \<open>total_amount\<close> is the sum over its persisted items of
  quantity times unit price, plus the delivery fee, which is the fee configured on the vendor.
  The persisted items are the request's items in order, and the unit price of each is the
  refill or selling price of the vendor's inventory row for the product when there is such
  a row, and the refill or base price of the catalogue product otherwise.
\<close>

theorem order_total_amount:
  assumes ok: "OrderCreateSerializer_create u number d s = (Inr ord, s')"
    and fk: "\<forall>i \<in> set (order_items s). item_order i \<in> order_pk ` set (orders s)"
  shows
   "get_order s' (order_pk ord) = Some ord \<and>
    delivery_fee ord = vendor_delivery_fee (data_vendor d) \<and>
    total_amount ord =
      sum_list (map (\<lambda>i. of_int (quantity i) * unit_price i)
                  (filter (\<lambda>i. item_order i = order_pk ord) (order_items s'))) + delivery_fee ord \<and>
    list_all2
      (\<lambda>item row. quantity row = data_quantity item \<and>
         (case get_inventory s (vendor_pk (data_vendor d)) (product_pk (data_gas_product item)) of
            Some inv_row \<Rightarrow>
              if data_is_refill item then refill_price inv_row = Some (unit_price row)
              else unit_price row = selling_price inv_row
          | None \<Rightarrow>
              unit_price row = (if data_is_refill item
                                then product_refill_price (data_gas_product item)
                                else base_price (data_gas_product item))))
      (data_items d) (filter (\<lambda>i. item_order i = order_pk ord) (order_items s'))"
proof -
  let ?o = "new_order u number d s"
  let ?s0 = "s\<lparr>orders := orders s @ [?o]\<rparr>"
  from create_serializer_ok[OF ok] obtain rows sub where
    ci: "create_items ?o (data_items d) 0 ?s0 =
       (Inr sub, s\<lparr>orders := orders s @ [?o], order_items := order_items s @ rows\<rparr>)"
    and ord: "ord = ?o\<lparr>subtotal := sub,
              delivery_fee := vendor_delivery_fee (data_vendor d),
              total_amount := sub + vendor_delivery_fee (data_vendor d)\<rparr>"
    and s': "s' = s\<lparr>orders := map (\<lambda>r. if order_pk r = order_pk ord then ord else r)
                         (orders s @ [?o]),
            order_items := order_items s @ rows,
            tracking := tracking s @ [\<lparr>trk_order = order_pk ord, trk_status = ''pending'',
                         trk_notes = ''Order created successfully'',
                         updated_by = Some (customer ord)\<rparr>]\<rparr>"
    by blast
  have pk: "order_pk ord = fresh_pk (map order_pk (orders s))" "order_pk ?o = order_pk ord"
    by (simp_all add: ord new_order_def)
  have fresh: "order_pk ord \<notin> order_pk ` set (orders s)"
    using fresh_pk_notin[of "map order_pk (orders s)"] pk by simp
  from create_items_ok[OF ci] obtain rows' where
    eq: "s\<lparr>orders := orders s @ [?o], order_items := order_items s @ rows\<rparr> =
         ?s0\<lparr>order_items := order_items ?s0 @ rows'\<rparr>"
    and sub: "sub = 0 + sum_list (map (\<lambda>i. of_int (quantity i) * unit_price i) rows')"
    and all: "list_all2 (\<lambda>item row. row = new_order_item ?o item (unit_price row) \<and>
                  resolve_unit_price ?s0 (vendor ?o) item = Some (unit_price row))
                (data_items d) rows'"
    by blast
  from eq have "order_items s @ rows = order_items s @ rows'"
    by (metis (no_types, lifting) db.select_convs(5) db.surjective db.update_convs(4) db.update_convs(5))
  then have rows: "rows' = rows" by simp
  have rows_pk: "\<forall>i \<in> set rows. item_order i = order_pk ord"
  proof
    fix i assume "i \<in> set rows"
    with all rows obtain item where "i = new_order_item ?o item (unit_price i)"
      by (auto simp: list_all2_conv_all_nth in_set_conv_nth)
    then have "item_order i = order_pk ?o" by (metis new_order_item_def order_item.select_convs(1))
    with pk show "item_order i = order_pk ord" by simp
  qed
  have old_pk: "\<forall>i \<in> set (order_items s). item_order i \<noteq> order_pk ord"
    using fk fresh by metis
  have items: "filter (\<lambda>i. item_order i = order_pk ord) (order_items s') = rows"
    unfolding s' using filter_new_rows[OF old_pk rows_pk] by simp
  have g: "get_order s' (order_pk ord) = Some ord"
    unfolding get_order_def s' using find_appended_row[OF fresh pk(2) refl] by simp
  have fee: "delivery_fee ord = vendor_delivery_fee (data_vendor d)" by (simp add: ord)
  have tot: "total_amount ord =
      sum_list (map (\<lambda>i. of_int (quantity i) * unit_price i) rows) + delivery_fee ord"
    using sub rows by (simp add: ord)
  have v: "vendor ?o = vendor_pk (data_vendor d)" by (simp add: new_order_def)
  have price: "list_all2
      (\<lambda>item row. quantity row = data_quantity item \<and>
         (case get_inventory s (vendor_pk (data_vendor d)) (product_pk (data_gas_product item)) of
            Some inv_row \<Rightarrow>
              if data_is_refill item then refill_price inv_row = Some (unit_price row)
              else unit_price row = selling_price inv_row
          | None \<Rightarrow>
              unit_price row = (if data_is_refill item
                                then product_refill_price (data_gas_product item)
                                else base_price (data_gas_product item))))
      (data_items d) rows"
  proof (rule list_all2_mono[OF all[unfolded rows]])
    fix item row
    assume a: "row = new_order_item ?o item (unit_price row) \<and>
       resolve_unit_price ?s0 (vendor ?o) item = Some (unit_price row)"
    then have q: "quantity row = data_quantity item"
      by (metis new_order_item_def order_item.select_convs(3))
    from a have "resolve_unit_price s (vendor_pk (data_vendor d)) item = Some (unit_price row)"
      using resolve_unit_price_frame[of ?s0 s] v by simp
    then have "case get_inventory s (vendor_pk (data_vendor d)) (product_pk (data_gas_product item)) of
            Some inv_row \<Rightarrow>
              if data_is_refill item then refill_price inv_row = Some (unit_price row)
              else unit_price row = selling_price inv_row
          | None \<Rightarrow>
              unit_price row = (if data_is_refill item
                                then product_refill_price (data_gas_product item)
                                else base_price (data_gas_product item))"
      by (auto simp: resolve_unit_price_def split: option.splits if_splits)
    with q show "quantity row = data_quantity item \<and>
         (case get_inventory s (vendor_pk (data_vendor d)) (product_pk (data_gas_product item)) of
            Some inv_row \<Rightarrow>
              if data_is_refill item then refill_price inv_row = Some (unit_price row)
              else unit_price row = selling_price inv_row
          | None \<Rightarrow>
              unit_price row = (if data_is_refill item
                                then product_refill_price (data_gas_product item)
                                else base_price (data_gas_product item)))" by simp
  qed
  from g fee tot price items show ?thesis by simp
qed

lemma create_two_cylinders:
  "OrderCreateSerializer_create customer7 ''KAA202401010003'' two_cylinders db0 =
    (Inr (order1\<lparr>order_pk := 3, order_number := ''KAA202401010003''\<rparr>),
     db0\<lparr>orders := [order1, order2, order1\<lparr>order_pk := 3, order_number := ''KAA202401010003''\<rparr>],
         order_items := [\<lparr>item_order = 3, item_gas_product = 5, quantity = 2,
                          unit_price = 2500, total_price = 5000, product_name = ''13kg LPG'',
                          item_cylinder_size = ''13kg'', item_brand = ''K-Gas'',
                          is_refill = False, customer_cylinder_serial = []\<rparr>],
         tracking := [\<lparr>trk_order = 3, trk_status = ''pending'',
                       trk_notes = ''Order created successfully'', updated_by = Some 7\<rparr>]\<rparr>)"
  by (simp add: OrderCreateSerializer_create_def new_order_def fresh_pk_def db0_def order1_def
        order2_def two_cylinders_def vendor3_def cylinder13_def customer7_def
        resolve_unit_price_def get_inventory_def new_order_item_def save_order_def
        create_tracking_def fits_def Let_def)

theorem order_total_amount_witness:
  "order_items db0 = [] \<and>
   (\<exists>ord s'. OrderCreateSerializer_create customer7 ''KAA202401010003'' two_cylinders db0 = (Inr ord, s') \<and>
      get_order s' (order_pk ord) = Some ord \<and>
      map (\<lambda>i. (quantity i, unit_price i)) (filter (\<lambda>i. item_order i = order_pk ord) (order_items s')) =
        [(2, 2500)] \<and>
      delivery_fee ord = 300 \<and>
      total_amount ord = 2 * 2500 + 300)"
proof -
  have e: "order_items db0 = []" by (simp add: db0_def)
  then have fk: "\<forall>i \<in> set (order_items db0). item_order i \<in> order_pk ` set (orders db0)"
    by simp
  note t = order_total_amount[OF create_two_cylinders fk]
  have "map (\<lambda>i. (quantity i, unit_price i))
          (filter (\<lambda>i. item_order i = 3)
            (order_items (snd (OrderCreateSerializer_create customer7 ''KAA202401010003'' two_cylinders db0)))) =
        [(2, 2500)]"
    by (simp add: create_two_cylinders)
  moreover have "total_amount (order1\<lparr>order_pk := 3, order_number := ''KAA202401010003''\<rparr>) = 2 * 2500 + 300"
    "delivery_fee (order1\<lparr>order_pk := 3, order_number := ''KAA202401010003''\<rparr>) = 300"
    by (simp_all add: order1_def)
  ultimately show ?thesis using t e create_two_cylinders by simp
qed

section \<open>Validation of the items\<close>

lemma validate_quantities_None:
  "validate_quantities its = None \<longleftrightarrow> (\<forall>item \<in> set its. 0 < data_quantity item)"
  by (induction its) auto

lemma validate_quantities_Some:
  "validate_quantities its = Some msg \<Longrightarrow> msg = ''Quantity must be greater than 0''"
  by (induction its) (auto split: if_splits)

text \<open>
  Claim C4. A request whose item list is empty or holds an item of quantity at most 0
  fails the serializer's validation with a validation error; whoever sends it, and
  whatever the database holds, \<open>CreateOrderView.post\<close> returns the database as it was
  (no order, no order item, no tracking row), and it answers a customer with 400 and that
  validation error. The \<open>create\<close> action of the view set answers the same.
\<close>

theorem invalid_items_persist_nothing:
  assumes bad: "data_items d = [] \<or> (\<exists>item \<in> set (data_items d). data_quantity item \<le> 0)"
  shows
   "\<exists>msg. validate_items (data_items d) = Inl msg \<and>
      snd (CreateOrderView_post u number d s) = s \<and>
      (is_customer u \<longrightarrow>
         CreateOrderView_post u number d s = (Response 400 (ValidationError msg), s)) \<and>
      OrderViewSet_create u number d s = (Response 400 (ValidationError msg), s)"
proof -
  from bad obtain msg where v: "validate_items (data_items d) = Inl msg"
  proof (cases "data_items d = []")
    case True
    then show ?thesis using that by (simp add: validate_items_def)
  next
    case False
    with bad have "\<not> (\<forall>item \<in> set (data_items d). 0 < data_quantity item)" by force
    then have "validate_quantities (data_items d) \<noteq> None"
      by (simp add: validate_quantities_None)
    then obtain m where "validate_quantities (data_items d) = Some m" by auto
    with False show ?thesis using that by (simp add: validate_items_def)
  qed
  show ?thesis
  proof (intro exI[of _ msg] conjI impI)
    show "validate_items (data_items d) = Inl msg" by (rule v)
    show "snd (CreateOrderView_post u number d s) = s"
      by (simp add: CreateOrderView_post_def v)
    show "CreateOrderView_post u number d s = (Response 400 (ValidationError msg), s)"
      if "is_customer u" using that by (simp add: CreateOrderView_post_def v)
    show "OrderViewSet_create u number d s = (Response 400 (ValidationError msg), s)"
      by (simp add: OrderViewSet_create_def v)
  qed
qed

theorem invalid_items_persist_nothing_witness:
  "data_items (two_cylinders\<lparr>data_items := []\<rparr>) = [] \<and> is_customer customer7 \<and>
   CreateOrderView_post customer7 ''KAA202401010003'' (two_cylinders\<lparr>data_items := []\<rparr>) db0 =
     (Response 400 (ValidationError ''At least one item is required''), db0)"
proof -
  have b: "data_items (two_cylinders\<lparr>data_items := []\<rparr>) = []" by simp
  have c: "is_customer customer7" by (simp add: is_customer_def customer7_def)
  have v: "validate_items (data_items (two_cylinders\<lparr>data_items := []\<rparr>)) =
      Inl ''At least one item is required''" by (simp add: validate_items_def)
  from invalid_items_persist_nothing[of "two_cylinders\<lparr>data_items := []\<rparr>" customer7 "''KAA202401010003''" db0]
    b c v show ?thesis by auto
qed

section \<open>The two creation routes and the tracking log\<close>

lemma create_view_one_tracking_row:
  assumes "OrderCreateSerializer_create u number d s = (Inr ord, s')"
  shows "tracking s' = tracking s @ [\<lparr>trk_order = order_pk ord, trk_status = ''pending'',
            trk_notes = ''Order created successfully'', updated_by = Some (customer ord)\<rparr>] \<and>
         status ord = ''pending'' \<and> payment_status ord = ''pending''"
proof -
  from create_serializer_ok[OF assms] obtain rows sub where
    ord: "ord = (new_order u number d s)\<lparr>subtotal := sub,
              delivery_fee := vendor_delivery_fee (data_vendor d),
              total_amount := sub + vendor_delivery_fee (data_vendor d)\<rparr>"
    and s': "s' = s\<lparr>orders := map (\<lambda>r. if order_pk r = order_pk ord then ord else r)
                         (orders s @ [new_order u number d s]),
            order_items := order_items s @ rows,
            tracking := tracking s @ [\<lparr>trk_order = order_pk ord, trk_status = ''pending'',
                         trk_notes = ''Order created successfully'',
                         updated_by = Some (customer ord)\<rparr>]\<rparr>"
    by blast
  show ?thesis by (simp add: s') (simp add: ord new_order_def)
qed

text \<open>
  Claim C8 at the \<open>create\<close> action of \<open>OrderViewSet\<close>: the customer of the sample database
  orders two cylinders. The order is created (201), and the tracking log, empty before,
  holds two rows for the new order: the serializer's and the one of \<open>perform_create\<close>.
\<close>

theorem viewset_create_two_tracking_rows:
  "tracking db0 = [] \<and>
   fst (OrderViewSet_create customer7 ''KAA202401010003'' two_cylinders db0) =
     Response 201 (OrderData (order1\<lparr>order_pk := 3, order_number := ''KAA202401010003''\<rparr>) []) \<and>
   filter (\<lambda>t. trk_order t = 3)
     (tracking (snd (OrderViewSet_create customer7 ''KAA202401010003'' two_cylinders db0))) =
     [\<lparr>trk_order = 3, trk_status = ''pending'',
       trk_notes = ''Order created successfully'', updated_by = Some 7\<rparr>,
      \<lparr>trk_order = 3, trk_status = ''pending'',
       trk_notes = ''Order created successfully'', updated_by = Some 7\<rparr>]"
proof -
  have v: "validate_items (data_items two_cylinders) = Inr (data_items two_cylinders)"
    by (simp add: validate_items_def two_cylinders_def)
  have c: "is_customer customer7" by (simp add: is_customer_def customer7_def)
  show ?thesis
    by (simp add: OrderViewSet_create_def OrderViewSet_perform_create_def v c
          create_two_cylinders create_tracking_def)
       (simp add: db0_def customer7_def order1_def)
qed

text \<open>
  The two exceptions of the creation routes, on the sample database. A vendor who posts a
  valid order to the view set gets 500 from the missing name in \<open>perform_create\<close>, nothing
  being written. A customer who orders 100000 cylinders at 2500 has a line total of nine
  integer digits: the item row cannot be saved, the answer is 500, and the order row
  created before the loop stays, without items and without tracking row.
\<close>

lemma viewset_create_non_customer:
  "OrderViewSet_create vendor20 ''KAA202401010003'' two_cylinders db0 =
     (Response 500 (Uncaught AttributeError), db0)"
proof -
  have v: "validate_items (data_items two_cylinders) = Inr (data_items two_cylinders)"
    by (simp add: validate_items_def two_cylinders_def)
  have c: "\<not> is_customer vendor20" by (simp add: is_customer_def vendor20_def)
  show ?thesis
    by (simp add: OrderViewSet_create_def OrderViewSet_perform_create_def v c)
qed

lemma create_line_total_overflow:
  "fst (CreateOrderView_post customer7 ''KAA202401010003''
          (two_cylinders\<lparr>data_items := [\<lparr>data_gas_product = cylinder13, data_quantity = 100000,
                                          data_is_refill = False,
                                          data_customer_cylinder_serial = []\<rparr>]\<rparr>) db0) =
     Response 500 (Uncaught InvalidOperation) \<and>
   map order_pk (orders (snd (CreateOrderView_post customer7 ''KAA202401010003''
          (two_cylinders\<lparr>data_items := [\<lparr>data_gas_product = cylinder13, data_quantity = 100000,
                                          data_is_refill = False,
                                          data_customer_cylinder_serial = []\<rparr>]\<rparr>) db0))) = [1, 2, 3] \<and>
   order_items (snd (CreateOrderView_post customer7 ''KAA202401010003''
          (two_cylinders\<lparr>data_items := [\<lparr>data_gas_product = cylinder13, data_quantity = 100000,
                                          data_is_refill = False,
                                          data_customer_cylinder_serial = []\<rparr>]\<rparr>) db0)) = [] \<and>
   tracking (snd (CreateOrderView_post customer7 ''KAA202401010003''
          (two_cylinders\<lparr>data_items := [\<lparr>data_gas_product = cylinder13, data_quantity = 100000,
                                          data_is_refill = False,
                                          data_customer_cylinder_serial = []\<rparr>]\<rparr>) db0)) = []"
  by (simp add: CreateOrderView_post_def is_customer_def validate_items_def
        OrderCreateSerializer_create_def new_order_def fresh_pk_def db0_def order1_def
        order2_def two_cylinders_def vendor3_def cylinder13_def customer7_def
        resolve_unit_price_def get_inventory_def new_order_item_def fits_def Let_def)

section \<open>Status actions and cancellation\<close>



















text \<open>The guard of \<open>confirm\<close>, which \<open>prepare\<close> and \<open>ready_for_pickup\<close> lack.\<close>

lemma confirm_rejects_non_pending:
  assumes "get_object u k s = Some ord" "status ord \<noteq> ''pending''"
  shows "snd (OrderViewSet_confirm now u k minutes s) = s \<and>
         400 \<le> status_code (fst (OrderViewSet_confirm now u k minutes s))"
  using assms by (auto simp: OrderViewSet_confirm_def split: option.splits bool.splits)

text \<open>
  Claim C5 at \<open>prepare\<close> and \<open>ready_for_pickup\<close>: order 2 of the sample database has been
  delivered, a status from which the state machine has no transition to \<open>preparing\<close> or to
  \<open>ready_for_pickup\<close>. Its vendor calls either action: the answer is 200, the order's status
  is overwritten, and a tracking row is written.
\<close>

theorem prepare_ignores_status:
  "get_order db0 2 = Some order2 \<and> status order2 = ''delivered'' \<and> tracking db0 = [] \<and>
   fst (OrderViewSet_prepare vendor20 2 db0) = Response 200 (Message ''Order marked as preparing'') \<and>
   get_order (snd (OrderViewSet_prepare vendor20 2 db0)) 2 = Some (order2\<lparr>status := ''preparing''\<rparr>) \<and>
   tracking (snd (OrderViewSet_prepare vendor20 2 db0)) =
     [\<lparr>trk_order = 2, trk_status = ''preparing'', trk_notes = ''Order is being prepared'',
       updated_by = Some 20\<rparr>] \<and>
   fst (OrderViewSet_ready_for_pickup vendor20 2 db0) =
     Response 200 (Message ''Order marked as ready for pickup'') \<and>
   get_order (snd (OrderViewSet_ready_for_pickup vendor20 2 db0)) 2 =
     Some (order2\<lparr>status := ''ready_for_pickup''\<rparr>) \<and>
   tracking (snd (OrderViewSet_ready_for_pickup vendor20 2 db0)) =
     [\<lparr>trk_order = 2, trk_status = ''ready_for_pickup'', trk_notes = ''Order is ready for pickup'',
       updated_by = Some 20\<rparr>]"
proof -
  have g: "get_order db0 2 = Some order2"
    by (simp add: get_order_def db0_def order1_def order2_def)
  have v: "get_vendor db0 3 = Some vendor3" by (simp add: get_vendor_def db0_def vendor3_def)
  have o: "get_object vendor20 2 db0 = Some order2"
    by (simp add: get_object_def get_queryset_def is_admin_user_def is_customer_def is_vendor_def
          vendor20_def vendor_user_is_def get_vendor_def db0_def vendor3_def order1_def order2_def)
  have n: "not_order_vendor db0 vendor20 order2 = Some False"
    by (simp add: not_order_vendor_def is_vendor_def vendor20_def v order2_def order1_def vendor3_def)
  have pk: "order_pk order2 = 2" by (simp add: order2_def)
  have st: "status order2 = ''delivered''" by (simp add: order2_def)
  have t: "tracking db0 = []" by (simp add: db0_def)
  have p: "OrderViewSet_prepare vendor20 2 db0 =
      (Response 200 (Message ''Order marked as preparing''),
       create_tracking \<lparr>trk_order = 2, trk_status = ''preparing'',
           trk_notes = ''Order is being prepared'', updated_by = Some 20\<rparr>
         (save_order (order2\<lparr>status := ''preparing''\<rparr>) db0))"
    by (simp add: OrderViewSet_prepare_def o n Let_def pk) (simp add: vendor20_def)
  have r: "OrderViewSet_ready_for_pickup vendor20 2 db0 =
      (Response 200 (Message ''Order marked as ready for pickup''),
       create_tracking \<lparr>trk_order = 2, trk_status = ''ready_for_pickup'',
           trk_notes = ''Order is ready for pickup'', updated_by = Some 20\<rparr>
         (save_order (order2\<lparr>status := ''ready_for_pickup''\<rparr>) db0))"
    by (simp add: OrderViewSet_ready_for_pickup_def o n Let_def pk) (simp add: vendor20_def)
  show ?thesis
    using g st t get_order_save_order[OF g, of "order2\<lparr>status := ''preparing''\<rparr>"]
      get_order_save_order[OF g, of "order2\<lparr>status := ''ready_for_pickup''\<rparr>"] pk
    by (simp add: p r get_order_frame create_tracking_sel save_order_sel)
qed

section \<open>Delivery completion\<close>

lemma deliver_writes_one_earning:
  assumes "fst (DeliveryViewSet_deliver now u k n s) = Response 200 (Message ''Order delivered successfully'')"
  shows "\<exists>dlv row. find (\<lambda>r. delivery_pk r = k) (delivery_get_queryset u s) = Some dlv \<and>
     earnings (snd (DeliveryViewSet_deliver now u k n s)) = earnings s @ [row] \<and>
     earn_delivery row = Some (delivery_pk dlv) \<and>
     earn_amount row = 100 + (case actual_distance dlv of None \<Rightarrow> 0 | Some km \<Rightarrow> km * 10)"
  using assms
  by (auto simp: DeliveryViewSet_deliver_def Let_def save_delivery_def save_order_def
        split: option.splits bool.splits)

text \<open>
  Claim C7 at \<open>UpdateDeliveryStatusView.post\<close>: the rider of the sample database marks
  delivery 1 (2.5 km travelled) as delivered through this handler. The answer is 200, the
  delivery is \<open>delivered\<close> and the order is \<open>delivered\<close> with its delivery time set, but no
  earnings row is written and the delivery's fees stay 0. Through \<open>DeliveryViewSet.deliver\<close>
  the same request writes one earnings row of 100 + 2.5 * 10 = 125.
\<close>

theorem update_status_delivered_no_earnings:
  "fst (UpdateDeliveryStatusView_post 500 rider30 (Some 1) (Some ''delivered'') None db0) =
     Response 200 (Message ''Delivery status updated to delivered'') \<and>
   map dlv_status (deliveries (snd (UpdateDeliveryStatusView_post 500 rider30 (Some 1)
                                      (Some ''delivered'') None db0))) = [''delivered''] \<and>
   get_order (snd (UpdateDeliveryStatusView_post 500 rider30 (Some 1) (Some ''delivered'') None db0)) 1 =
     Some (order1\<lparr>status := ''delivered'', actual_delivery_time := Some 500\<rparr>) \<and>
   earnings (snd (UpdateDeliveryStatusView_post 500 rider30 (Some 1) (Some ''delivered'') None db0)) = [] \<and>
   map total_earnings (deliveries (snd (UpdateDeliveryStatusView_post 500 rider30 (Some 1)
                                      (Some ''delivered'') None db0))) = [0] \<and>
   map earn_amount (earnings (snd (DeliveryViewSet_deliver 500 rider30 1 None db0))) = [125]"
proof -
  have r: "is_rider rider30" "\<not> is_admin_user rider30"
    by (simp_all add: is_rider_def is_admin_user_def rider30_def)
  have g: "get_order db0 1 = Some order1"
    by (simp add: get_order_def db0_def order1_def)
  have f: "find (\<lambda>r. delivery_pk r = 1 \<and> rider_user_is db0 (user_pk rider30) r) (deliveries db0) =
      Some delivery1"
    by (simp add: rider_user_is_def get_rider_profile_def db0_def delivery1_def rider30_def)
  have o: "dlv_order delivery1 = 1" by (simp add: delivery1_def)
  have u: "UpdateDeliveryStatusView_post 500 rider30 (Some 1) (Some ''delivered'') None db0 =
      (Response 200 (Message ''Delivery status updated to delivered''),
       save_delivery (delivery1\<lparr>dlv_status := ''delivered'', delivered_at := Some 500,
                                 delivery_notes := []\<rparr>)
         (save_order (order1\<lparr>status := ''delivered'', actual_delivery_time := Some 500\<rparr>) db0))"
    using f g by (simp add: UpdateDeliveryStatusView_post_def r Let_def o)
  have go: "get_order (save_order (order1\<lparr>status := ''delivered'', actual_delivery_time := Some 500\<rparr>) db0) 1 =
      Some (order1\<lparr>status := ''delivered'', actual_delivery_time := Some 500\<rparr>)"
    by (rule get_order_save_order[OF g]) (simp add: order1_def)
  have a: "get_order (snd (UpdateDeliveryStatusView_post 500 rider30 (Some 1) (Some ''delivered'') None db0)) 1 =
     Some (order1\<lparr>status := ''delivered'', actual_delivery_time := Some 500\<rparr>)"
    unfolding u using go by (simp add: get_order_def save_delivery_def)
  have b: "map dlv_status (deliveries (snd (UpdateDeliveryStatusView_post 500 rider30 (Some 1)
                                      (Some ''delivered'') None db0))) = [''delivered'']"
    "earnings (snd (UpdateDeliveryStatusView_post 500 rider30 (Some 1) (Some ''delivered'') None db0)) = []"
    "map total_earnings (deliveries (snd (UpdateDeliveryStatusView_post 500 rider30 (Some 1)
                                      (Some ''delivered'') None db0))) = [0]"
    unfolding u by (simp_all add: save_delivery_def save_order_def db0_def delivery1_def)
  have q: "find (\<lambda>r. delivery_pk r = 1) (delivery_get_queryset rider30 db0) = Some delivery1"
    by (simp add: delivery_get_queryset_def is_rider_def is_admin_user_def db0_def rider30_def
          delivery1_def)
  have n: "not_delivery_rider db0 rider30 delivery1 = Some False"
    by (simp add: not_delivery_rider_def is_rider_def get_rider_profile_def db0_def delivery1_def
          rider30_def)
  have g1: "get_order (save_delivery (delivery1\<lparr>dlv_status := ''delivered'', delivered_at := Some 500,
                                 delivery_notes := []\<rparr>) db0) 1 = Some order1"
    using g by (simp add: get_order_def save_delivery_def)
  have c: "map earn_amount (earnings (snd (DeliveryViewSet_deliver 500 rider30 1 None db0))) = [125]"
    using q n g1
    by (simp add: DeliveryViewSet_deliver_def Let_def o save_delivery_def save_order_def)
       (simp add: db0_def delivery1_def)
  from u a b c show ?thesis by simp
qed

section \<open>The estimate\<close>

lemma estimate_items_ok:
  "estimate_items s v its sub acc = Inr (sub', ls) \<Longrightarrow>
   \<exists>new. ls = acc @ new \<and> sub' = sub + sum_list (map ei_total_price new) \<and>
     list_all2 (\<lambda>item line. estimate_item s v item = Some line) its new"
proof (induction its arbitrary: sub acc)
  case Nil
  then show ?case by simp
next
  case (Cons item rest)
  from Cons.prems obtain line where
    l: "estimate_item s v item = Some line"
    and rec: "estimate_items s v rest (sub + ei_total_price line) (acc @ [line]) = Inr (sub', ls)"
    by (auto split: option.splits)
  from Cons.IH[OF rec] obtain new where
    "ls = (acc @ [line]) @ new" "sub' = sub + ei_total_price line + sum_list (map ei_total_price new)"
    "list_all2 (\<lambda>item line. estimate_item s v item = Some line) rest new" by blast
  then show ?case using l by (intro exI[of _ "line # new"]) simp
qed

text \<open>
  Claim C9, as the code has it. \<open>OrderEstimateView\<close> requires an authenticated user: a
  request without one is refused before the handler runs. For every request, with or
  without a user, the database is returned exactly as it was. For an authenticated
  request naming an existing vendor, with a price for every item, the answer is 200 with
  one line per item (product name and quantity of the item, the unit price resolved as in
  order creation, their product as total price, and the stock flag), the subtotal of the
  lines, the vendor's delivery fee, their sum as total, the rounded distance, and the
  deliverability flag: true when the vendor has no coordinates, and otherwise whether the
  distance is within the vendor's delivery radius.
\<close>

theorem estimate_reads_only:
  "snd (OrderEstimateView_post geodesic_km round2 request_user d s) = s \<and>
   (request_user = None \<longrightarrow>
      fst (OrderEstimateView_post geodesic_km round2 request_user d s) = not_authenticated) \<and>
   (\<forall>u vnd sub ls.
      request_user = Some u \<and> get_vendor s (est_vendor d) = Some vnd \<and>
      estimate_items s (vendor_pk vnd) (est_items d) 0 [] = Inr (sub, ls) \<longrightarrow>
      (\<exists>e. fst (OrderEstimateView_post geodesic_km round2 request_user d s) =
              Response 200 (EstimateData e) \<and>
           list_all2
             (\<lambda>item line.
                ei_product_name line = name (data_gas_product item) \<and>
                ei_quantity line = data_quantity item \<and>
                resolve_unit_price s (vendor_pk vnd) item = Some (ei_unit_price line) \<and>
                ei_total_price line = of_int (data_quantity item) * ei_unit_price line \<and>
                ei_in_stock line =
                  (case get_inventory s (vendor_pk vnd) (product_pk (data_gas_product item)) of
                     None \<Rightarrow> False
                   | Some row \<Rightarrow> data_quantity item \<le> available_stock row))
             (est_items d) (e_items e) \<and>
           e_subtotal e = sum_list (map ei_total_price (e_items e)) \<and>
           e_delivery_fee e = vendor_delivery_fee vnd \<and>
           e_total_amount e = e_subtotal e + e_delivery_fee e \<and>
           e_distance_km e =
             round2 (if latitude vnd \<noteq> 0 \<and> longitude vnd \<noteq> 0
                     then geodesic_km (latitude vnd, longitude vnd)
                            (est_delivery_latitude d, est_delivery_longitude d)
                     else 0) \<and>
           e_can_deliver e =
             (if latitude vnd \<noteq> 0 \<and> longitude vnd \<noteq> 0
              then geodesic_km (latitude vnd, longitude vnd)
                     (est_delivery_latitude d, est_delivery_longitude d)
                   \<le> of_int (delivery_radius vnd)
              else True)))"
proof (intro conjI allI impI)
  show "snd (OrderEstimateView_post geodesic_km round2 request_user d s) = s"
    by (simp add: OrderEstimateView_post_def Let_def split: option.splits sum.splits prod.splits)
  show "fst (OrderEstimateView_post geodesic_km round2 request_user d s) = not_authenticated"
    if "request_user = None" using that by (simp add: OrderEstimateView_post_def)
next
  fix u vnd sub ls
  assume a: "request_user = Some u \<and> get_vendor s (est_vendor d) = Some vnd \<and>
      estimate_items s (vendor_pk vnd) (est_items d) 0 [] = Inr (sub, ls)"
  from estimate_items_ok[of s "vendor_pk vnd" "est_items d" 0 "[]" sub ls] a
  have sub: "sub = sum_list (map ei_total_price ls)"
    and all: "list_all2 (\<lambda>item line. estimate_item s (vendor_pk vnd) item = Some line) (est_items d) ls"
    by auto
  have lines: "list_all2
             (\<lambda>item line.
                ei_product_name line = name (data_gas_product item) \<and>
                ei_quantity line = data_quantity item \<and>
                resolve_unit_price s (vendor_pk vnd) item = Some (ei_unit_price line) \<and>
                ei_total_price line = of_int (data_quantity item) * ei_unit_price line \<and>
                ei_in_stock line =
                  (case get_inventory s (vendor_pk vnd) (product_pk (data_gas_product item)) of
                     None \<Rightarrow> False
                   | Some row \<Rightarrow> data_quantity item \<le> available_stock row))
             (est_items d) ls"
  proof (rule list_all2_mono[OF all])
    fix item line
    assume "estimate_item s (vendor_pk vnd) item = Some line"
    then show "ei_product_name line = name (data_gas_product item) \<and>
                ei_quantity line = data_quantity item \<and>
                resolve_unit_price s (vendor_pk vnd) item = Some (ei_unit_price line) \<and>
                ei_total_price line = of_int (data_quantity item) * ei_unit_price line \<and>
                ei_in_stock line =
                  (case get_inventory s (vendor_pk vnd) (product_pk (data_gas_product item)) of
                     None \<Rightarrow> False
                   | Some row \<Rightarrow> data_quantity item \<le> available_stock row)"
      by (auto simp: estimate_item_def split: option.splits)
  qed
  show "\<exists>e. fst (OrderEstimateView_post geodesic_km round2 request_user d s) =
              Response 200 (EstimateData e) \<and>
           list_all2
             (\<lambda>item line.
                ei_product_name line = name (data_gas_product item) \<and>
                ei_quantity line = data_quantity item \<and>
                resolve_unit_price s (vendor_pk vnd) item = Some (ei_unit_price line) \<and>
                ei_total_price line = of_int (data_quantity item) * ei_unit_price line \<and>
                ei_in_stock line =
                  (case get_inventory s (vendor_pk vnd) (product_pk (data_gas_product item)) of
                     None \<Rightarrow> False
                   | Some row \<Rightarrow> data_quantity item \<le> available_stock row))
             (est_items d) (e_items e) \<and>
           e_subtotal e = sum_list (map ei_total_price (e_items e)) \<and>
           e_delivery_fee e = vendor_delivery_fee vnd \<and>
           e_total_amount e = e_subtotal e + e_delivery_fee e \<and>
           e_distance_km e =
             round2 (if latitude vnd \<noteq> 0 \<and> longitude vnd \<noteq> 0
                     then geodesic_km (latitude vnd, longitude vnd)
                            (est_delivery_latitude d, est_delivery_longitude d)
                     else 0) \<and>
           e_can_deliver e =
             (if latitude vnd \<noteq> 0 \<and> longitude vnd \<noteq> 0
              then geodesic_km (latitude vnd, longitude vnd)
                     (est_delivery_latitude d, est_delivery_longitude d)
                   \<le> of_int (delivery_radius vnd)
              else True)"
    using a lines sub by (simp add: OrderEstimateView_post_def Let_def)
qed

theorem estimate_reads_only_witness:
  "get_vendor db0 (est_vendor estimate_two) = Some vendor3 \<and>
   snd (OrderEstimateView_post (\<lambda>a b. 0) (\<lambda>x. x) (Some customer7) estimate_two db0) = db0 \<and>
   (\<exists>e. fst (OrderEstimateView_post (\<lambda>a b. 0) (\<lambda>x. x) (Some customer7) estimate_two db0) =
           Response 200 (EstimateData e) \<and>
        map ei_unit_price (e_items e) = [2500] \<and> e_subtotal e = 5000 \<and>
        e_delivery_fee e = 300 \<and> e_total_amount e = 5300 \<and> e_can_deliver e)"
proof -
  have v: "get_vendor db0 (est_vendor estimate_two) = Some vendor3"
    by (simp add: get_vendor_def db0_def estimate_two_def vendor3_def)
  have i: "estimate_items db0 (vendor_pk vendor3) (est_items estimate_two) 0 [] =
      Inr (5000, [\<lparr>ei_product_name = ''13kg LPG'', ei_quantity = 2, ei_unit_price = 2500,
                    ei_total_price = 5000, ei_in_stock = True\<rparr>])"
    by (simp add: estimate_two_def two_cylinders_def estimate_item_def resolve_unit_price_def
          get_inventory_def available_stock_def db0_def vendor3_def cylinder13_def)
  have f: "fst (OrderEstimateView_post (\<lambda>a b. 0) (\<lambda>x. x) (Some customer7) estimate_two db0) =
     Response 200 (EstimateData
       \<lparr>e_vendor_id = 3, e_vendor_name = ''Gas Point'', e_delivery_radius = 5,
        e_minimum_order_amount = 0,
        e_items = [\<lparr>ei_product_name = ''13kg LPG'', ei_quantity = 2, ei_unit_price = 2500,
                    ei_total_price = 5000, ei_in_stock = True\<rparr>],
        e_subtotal = 5000, e_delivery_fee = 300, e_total_amount = 5300, e_distance_km = 0,
        e_can_deliver = True, e_meets_minimum = True, e_estimated_delivery_time = 60\<rparr>)"
    by (simp add: OrderEstimateView_post_def v i Let_def) (simp add: vendor3_def)
  from estimate_reads_only[of "\<lambda>a b. 0" "\<lambda>x. x" "Some customer7" estimate_two db0] v f
  show ?thesis by simp
qed

text \<open>
  Claim C9 as stated has the estimate reachable without authentication. The request of the
  sample, sent without a user, gets the framework's refusal and no estimate.
\<close>

theorem estimate_requires_authentication_counterexample:
  "fst (OrderEstimateView_post (\<lambda>a b. 0) (\<lambda>x. x) None estimate_two db0) =
     Response 401 (Error ''Authentication credentials were not provided.'') \<and>
   fst (OrderEstimateView_post (\<lambda>a b. 0) (\<lambda>x. x) (Some customer7) estimate_two db0) \<noteq>
     fst (OrderEstimateView_post (\<lambda>a b. 0) (\<lambda>x. x) None estimate_two db0) \<and>
   status_code (fst (OrderEstimateView_post (\<lambda>a b. 0) (\<lambda>x. x) (Some customer7) estimate_two db0)) = 200"
proof -
  have v: "get_vendor db0 (est_vendor estimate_two) = Some vendor3"
    by (simp add: get_vendor_def db0_def estimate_two_def vendor3_def)
  have i: "estimate_items db0 (vendor_pk vendor3) (est_items estimate_two) 0 [] =
      Inr (5000, [\<lparr>ei_product_name = ''13kg LPG'', ei_quantity = 2, ei_unit_price = 2500,
                    ei_total_price = 5000, ei_in_stock = True\<rparr>])"
    by (simp add: estimate_two_def two_cylinders_def estimate_item_def resolve_unit_price_def
          get_inventory_def available_stock_def db0_def vendor3_def cylinder13_def)
  show ?thesis
    by (simp add: OrderEstimateView_post_def v i Let_def not_authenticated_def)
qed

end
